theory Spec2Isabelle
  imports Complex_Main "HOL-Library.AList" "HOL-Library.Sublist" "HOL-Library.Multiset"
begin

section \<open>JavaScript values read by the tool layer\<close>

text \<open>
  A JavaScript number is an IEEE double. A finite double is represented by the rational it
  denotes (both zeros are \<open>Finite 0\<close>); no arithmetic is performed on numbers by the code in
  \<^verbatim>\<open>src/index.ts\<close>, only the comparison \<^verbatim>\<open><\<close>, which on doubles agrees with the order of the
  rationals and is false as soon as one side is \<open>NaN\<close>.
\<close>

datatype jsnum = NaN | NegInf | Finite rat | PosInf

fun js_lt :: "jsnum \<Rightarrow> jsnum \<Rightarrow> bool" where
  "js_lt NaN y = False"
| "js_lt x NaN = False"
| "js_lt (Finite a) (Finite b) = (a < b)"
| "js_lt NegInf NegInf = False"
| "js_lt NegInf y = True"
| "js_lt x NegInf = False"
| "js_lt PosInf y = False"
| "js_lt x PosInf = True"

definition js_le :: "jsnum \<Rightarrow> jsnum \<Rightarrow> bool" where
  "js_le x y = (x \<noteq> NaN \<and> y \<noteq> NaN \<and> (x = y \<or> js_lt x y))"

text \<open>
  The argument values a client can put into the \<^verbatim>\<open>tokens\<close> field: \<open>JUndefined\<close> is an omitted
  field, \<open>JOther\<close> stands for \<^verbatim>\<open>null\<close>, booleans, arrays and objects (none of them is a string
  or a number).
\<close>

datatype jsval = JUndefined | JNumber jsnum | JString string | JOther

definition DEFAULT_MINIMUM_TOKENS :: jsnum where
  "DEFAULT_MINIMUM_TOKENS = Finite 5000"

subsection \<open>The built-in conversion \<^verbatim>\<open>Number(string)\<close>\<close>

definition is_digit :: "char \<Rightarrow> bool" where
  "is_digit c = (48 \<le> (of_char c :: nat) \<and> (of_char c :: nat) \<le> 57)"

definition digits_value :: "string \<Rightarrow> nat" where
  "digits_value s = foldl (\<lambda>n c. 10 * n + (of_char c - 48)) 0 s"

text \<open>
  \<^verbatim>\<open>Number\<close> is a built-in of the language, not code of the repository. On a non-empty string
  of ASCII decimal digits whose value is at most \<open>2^53\<close> it returns the integer denoted, which
  is a double exactly. Everywhere else (signs, fractions, exponents, white space, other
  radices, text that is no numeral) the model leaves the built-in to the parameter \<open>rest\<close>.
\<close>

definition Number :: "(string \<Rightarrow> jsnum) \<Rightarrow> string \<Rightarrow> jsnum" where
  "Number rest s =
     (if s \<noteq> [] \<and> list_all is_digit s \<and> digits_value s \<le> 2 ^ 53
      then Finite (of_nat (digits_value s)) else rest s)"

subsection \<open>The schema of the \<^verbatim>\<open>tokens\<close> field\<close>

text \<open>
  \<^verbatim>\<open>z.preprocess((val) => (typeof val === "string" ? Number(val) : val), z.number())
     .transform((val) => (val < DEFAULT_MINIMUM_TOKENS ? DEFAULT_MINIMUM_TOKENS : val))
     .optional()\<close>
\<close>

datatype zod_error = ZodError

definition preprocess :: "(string \<Rightarrow> jsnum) \<Rightarrow> jsval \<Rightarrow> jsval" where
  "preprocess rest val = (case val of JString s \<Rightarrow> JNumber (Number rest s) | _ \<Rightarrow> val)"

text \<open>\<^verbatim>\<open>z.number()\<close> accepts a value of type number that is not \<open>NaN\<close>.\<close>

definition z_number :: "jsval \<Rightarrow> zod_error + jsnum" where
  "z_number val = (case val of JNumber n \<Rightarrow> (if n = NaN then Inl ZodError else Inr n)
                   | _ \<Rightarrow> Inl ZodError)"

definition transform :: "jsnum \<Rightarrow> jsnum" where
  "transform val = (if js_lt val DEFAULT_MINIMUM_TOKENS then DEFAULT_MINIMUM_TOKENS else val)"

text \<open>\<^verbatim>\<open>.optional()\<close> lets \<^verbatim>\<open>undefined\<close> through untouched and runs the inner schema otherwise.\<close>

definition tokens_schema :: "(string \<Rightarrow> jsnum) \<Rightarrow> jsval \<Rightarrow> zod_error + jsnum option" where
  "tokens_schema rest val =
     (if val = JUndefined then Inr None
      else case z_number (preprocess rest val) of
             Inl e \<Rightarrow> Inl e
           | Inr n \<Rightarrow> Inr (Some (transform n)))"

subsection \<open>Strings: \<^verbatim>\<open>includes\<close>, \<^verbatim>\<open>split\<close> and array destructuring\<close>

text \<open>\<^verbatim>\<open>s.includes(sep)\<close>: \<open>sep\<close> occurs in \<open>s\<close> at some position.\<close>

fun js_includes :: "string \<Rightarrow> string \<Rightarrow> bool" where
  "js_includes [] sep = (sep = [])"
| "js_includes (c # cs) sep = (prefix sep (c # cs) \<or> js_includes cs sep)"

text \<open>
  \<^verbatim>\<open>s.split(sep)\<close> for a string separator: the text is cut at every occurrence of \<open>sep\<close>, found
  from left to right, the search resuming right after each occurrence. \<open>split_at\<close> is the
  scan for a non-empty separator; an empty separator cuts between all characters.
\<close>

function split_at :: "string \<Rightarrow> string \<Rightarrow> string list" where
  "split_at sep [] = [[]]"
| "split_at sep (c # cs) =
     (if sep \<noteq> [] \<and> prefix sep (c # cs)
      then [] # split_at sep (drop (length sep) (c # cs))
      else (case split_at sep cs of [] \<Rightarrow> [[c]] | p # ps \<Rightarrow> (c # p) # ps))"
  by pat_completeness auto
termination
  by (relation "measure (\<lambda>(sep, s). length s)") (auto simp: neq_Nil_conv)

definition js_split :: "string \<Rightarrow> string \<Rightarrow> string list" where
  "js_split s sep = (if sep = [] then map (\<lambda>c. [c]) s else split_at sep s)"

text \<open>
  \<^verbatim>\<open>const [id, foldersParam] = array\<close> reads the elements 0 and 1; an element past the end
  of the array is \<^verbatim>\<open>undefined\<close>, here \<open>None\<close>.
\<close>

definition element :: "'a list \<Rightarrow> nat \<Rightarrow> 'a option" where
  "element xs i = (if i < length xs then Some (xs ! i) else None)"

section \<open>The tool \<^verbatim>\<open>get-library-docs\<close>\<close>

text \<open>
  The call \<^verbatim>\<open>fetchLibraryDocumentation(libraryId, {tokens, topic, folders})\<close>. The two strings
  that come out of the destructuring are \<open>None\<close> where JavaScript has \<^verbatim>\<open>undefined\<close>.
\<close>

record fetch_options =
  tokens :: jsnum
  topic :: string
  folders :: "string option"

text \<open>
  The handler's parameters, after the schema: \<^verbatim>\<open>tokens = DEFAULT_MINIMUM_TOKENS\<close> and
  \<^verbatim>\<open>topic = ""\<close> are the defaults of omitted fields. \<open>fetch_call\<close> is the pair of arguments the
  handler passes to \<^verbatim>\<open>fetchLibraryDocumentation\<close>.
\<close>

definition fetch_call :: "string \<Rightarrow> jsnum option \<Rightarrow> string option \<Rightarrow> string option \<times> fetch_options" where
  "fetch_call context7CompatibleLibraryID tokens_arg topic_arg =
     (let tokens_v = (case tokens_arg of None \<Rightarrow> DEFAULT_MINIMUM_TOKENS | Some t \<Rightarrow> t);
          topic_v = (case topic_arg of None \<Rightarrow> '''' | Some t \<Rightarrow> t);
          (libraryId, folders_v) =
            (if js_includes context7CompatibleLibraryID ''?folders=''
             then (let parts = js_split context7CompatibleLibraryID ''?folders=''
                   in (element parts 0, element parts 1))
             else (Some context7CompatibleLibraryID, Some ''''))
      in (libraryId, \<lparr>tokens = tokens_v, topic = topic_v, folders = folders_v\<rparr>))"

datatype content = Text string

datatype tool_outcome = InvalidArguments zod_error | Result "content list"

definition not_found_text :: string where
  "not_found_text = ''Documentation not found or not finalized for this library. This might have happened because you used an invalid Context7-compatible library ID. To get a valid Context7-compatible library ID, use the 'resolve-library-id' with the package name you wish to retrieve documentation for.''"

text \<open>
  The registered tool: the SDK validates the arguments against the schema and calls the
  handler only when they pass. \<open>fetchLibraryDocumentation\<close> is the function of
  \<^verbatim>\<open>lib/api.js\<close>, a parameter here; \<open>None\<close> is the value \<^verbatim>\<open>null\<close> it resolves to. The test
  \<^verbatim>\<open>!documentationText\<close> is true of \<^verbatim>\<open>null\<close> and of the empty string.
\<close>

definition get_library_docs ::
  "(string \<Rightarrow> jsnum) \<Rightarrow> (string option \<Rightarrow> fetch_options \<Rightarrow> string option)
     \<Rightarrow> string \<Rightarrow> string option \<Rightarrow> jsval \<Rightarrow> tool_outcome" where
  "get_library_docs rest fetchLibraryDocumentation context7CompatibleLibraryID topic_arg tokens_val =
     (case tokens_schema rest tokens_val of
        Inl e \<Rightarrow> InvalidArguments e
      | Inr tokens_arg \<Rightarrow>
          (let (libraryId, opts) = fetch_call context7CompatibleLibraryID tokens_arg topic_arg;
               documentationText = fetchLibraryDocumentation libraryId opts
           in case documentationText of
                None \<Rightarrow> Result [Text not_found_text]
              | Some text \<Rightarrow> if text = [] then Result [Text not_found_text] else Result [Text text]))"

text \<open>
  What the handler answers, given what the awaited \<^verbatim>\<open>fetchLibraryDocumentation\<close> call
  resolved to; it names the last two \<^verbatim>\<open>return\<close> statements of the handler in the statements
  below.
\<close>

abbreviation docs_answer :: "string option \<Rightarrow> tool_outcome" where
  "docs_answer documentationText \<equiv>
     (case documentationText of
        None \<Rightarrow> Result [Text not_found_text]
      | Some text \<Rightarrow> if text = [] then Result [Text not_found_text] else Result [Text text])"

section \<open>The tool \<^verbatim>\<open>resolve-library-id\<close>\<close>

text \<open>
  \<^verbatim>\<open>searchLibraries\<close> (of \<^verbatim>\<open>lib/api.js\<close>) and \<^verbatim>\<open>formatSearchResults\<close> (of \<^verbatim>\<open>lib/utils.js\<close>) are
  parameters. A response is \<^verbatim>\<open>null\<close> (\<open>None\<close>) or an object whose field \<^verbatim>\<open>results\<close> is an array
  or missing.
\<close>

record 'r search_response =
  results :: "'r list option"

definition resolve_library_id ::
  "(string \<Rightarrow> 'r search_response option) \<Rightarrow> ('r search_response \<Rightarrow> string) \<Rightarrow> string \<Rightarrow> tool_outcome" where
  "resolve_library_id searchLibraries formatSearchResults libraryName =
     (case searchLibraries libraryName of
        None \<Rightarrow> Result [Text ''Failed to retrieve library documentation data from Context7'']
      | Some searchResponse \<Rightarrow>
          (case results searchResponse of
             None \<Rightarrow> Result [Text ''Failed to retrieve library documentation data from Context7'']
           | Some rs \<Rightarrow>
               if length rs = 0 then Result [Text ''No documentation libraries available'']
               else Result [Text (''Available libraries and their Context7-compatible library IDs:'' @ [CHR 0x0A, CHR 0x0A]
                                  @ formatSearchResults searchResponse)]))"

section \<open>The session registry and the transports\<close>

text \<open>
  A \<^verbatim>\<open>StreamableHTTPServerTransport\<close> is an object of the SDK. The model keeps every
  transport constructed so far in \<open>heap\<close>; a reference is the position in it, so two
  references are the same transport exactly when they are equal. Of the object's fields the
  code of \<^verbatim>\<open>index.ts\<close> reads only \<^verbatim>\<open>sessionId\<close>, which is \<^verbatim>\<open>undefined\<close> (\<open>None\<close>) until the
  SDK assigns it.
\<close>

type_synonym transport_ref = nat

record transport_obj =
  sessionId :: "string option"

text \<open>
  \<^verbatim>\<open>const transports: { [sessionId: string]: StreamableHTTPServerTransport } = {}\<close> is an
  object literal: its own properties are the registry's entries (an association list with
  distinct keys, in the order of creation), and its prototype is \<^verbatim>\<open>Object.prototype\<close>, whose
  property names are these twelve. Each of them names a function, \<^verbatim>\<open>__proto__\<close> the prototype
  object itself: values that are truthy and have no \<^verbatim>\<open>handleRequest\<close>.
\<close>

type_synonym registry = "(string \<times> transport_ref) list"

definition Object_prototype_keys :: "string list" where
  "Object_prototype_keys =
     [''constructor'', ''__defineGetter__'', ''__defineSetter__'', ''hasOwnProperty'',
      ''__lookupGetter__'', ''__lookupSetter__'', ''isPrototypeOf'', ''propertyIsEnumerable'',
      ''toString'', ''valueOf'', ''__proto__'', ''toLocaleString'']"

datatype property = Undefined | Transport transport_ref | Inherited string

text \<open>\<^verbatim>\<open>transports[key]\<close>: the own property if there is one, else what the prototype has.\<close>

definition get_property :: "registry \<Rightarrow> string \<Rightarrow> property" where
  "get_property r key =
     (case map_of r key of
        Some t \<Rightarrow> Transport t
      | None \<Rightarrow> if key \<in> set Object_prototype_keys then Inherited key else Undefined)"


text \<open>\<^verbatim>\<open>delete transports[key]\<close> removes an own property and does nothing without one.\<close>

definition delete_property :: "registry \<Rightarrow> string \<Rightarrow> registry" where
  "delete_property r key = AList.delete key r"

text \<open>
  \<^verbatim>\<open>Object.values(transports)\<close>: the values of the own properties, those whose key is an
  array index (a canonical numeral below \<open>2^32 - 1\<close>) first, by ascending index, then the
  others in the order of creation.
\<close>

definition is_array_index :: "string \<Rightarrow> bool" where
  "is_array_index key =
     (key \<noteq> [] \<and> list_all is_digit key \<and> (key = ''0'' \<or> hd key \<noteq> CHR ''0'')
      \<and> digits_value key < 2 ^ 32 - 1)"

definition Object_values :: "registry \<Rightarrow> transport_ref list" where
  "Object_values r =
     map snd (sort_key (\<lambda>(key, t). digits_value key) (filter (\<lambda>(key, t). is_array_index key) r)
              @ filter (\<lambda>(key, t). \<not> is_array_index key) r)"

text \<open>
  The state of the server process: the registry, the transports constructed, and the
  transports handed to \<^verbatim>\<open>server.connect\<close>, in order.
\<close>

record server_state =
  transports :: registry
  heap :: "transport_obj list"
  connected :: "transport_ref list"

definition initial_state :: server_state where
  "initial_state = \<lparr>transports = [], heap = [], connected = []\<rparr>"

definition sessionId_of :: "server_state \<Rightarrow> transport_ref \<Rightarrow> string option" where
  "sessionId_of st t = (if t < length (heap st) then sessionId (heap st ! t) else None)"

section \<open>The HTTP endpoint \<^verbatim>\<open>/mcp\<close>\<close>

text \<open>
  Of a request the handlers read the header \<^verbatim>\<open>mcp-session-id\<close> (\<open>None\<close> when the request has
  none) and, for a POST, whether the SDK's \<^verbatim>\<open>isInitializeRequest\<close> holds of the body.
\<close>

record request =
  mcp_session_id :: "string option"
  init_body :: bool

datatype json_null = Null

record rpc_error =
  code :: int
  message :: string

record envelope =
  jsonrpc :: string
  error :: rpc_error
  id_field :: json_null

datatype response_body = Json envelope | Plain string

datatype js_exception = TypeError

text \<open>
  What a handler does with the request: it responds itself (\<^verbatim>\<open>res.status(n)\<close> and a body),
  it calls \<^verbatim>\<open>handleRequest\<close> of a transport, which then owns the response, or it throws.
\<close>

datatype outcome = Responded nat response_body | Handled transport_ref | Threw js_exception

text \<open>A string or \<^verbatim>\<open>undefined\<close> in a condition: true of a non-empty string only.\<close>

definition truthy :: "string option \<Rightarrow> bool" where
  "truthy header = (case header of None \<Rightarrow> False | Some s \<Rightarrow> s \<noteq> [])"

definition registered :: "server_state \<Rightarrow> string option \<Rightarrow> property" where
  "registered st header =
     (case header of None \<Rightarrow> Undefined | Some s \<Rightarrow> get_property (transports st) s)"

definition bad_request :: envelope where
  "bad_request =
     \<lparr>jsonrpc = ''2.0'',
      error = \<lparr>code = - 32000,
               message = ''Bad Request: No valid session ID provided or not an initialization request.''\<rparr>,
      id_field = Null\<rparr>"

text \<open>
  \<^verbatim>\<open>app.post('/mcp', ...)\<close>. In the first branch \<^verbatim>\<open>transport\<close> is whatever \<^verbatim>\<open>transports[sessionId]\<close>
  is; calling \<^verbatim>\<open>handleRequest\<close> on an inherited member of \<^verbatim>\<open>Object.prototype\<close> throws a
  \<^verbatim>\<open>TypeError\<close>. The second branch constructs a transport, with no session id yet, and
  connects the server to it.
\<close>

definition post_mcp :: "server_state \<Rightarrow> request \<Rightarrow> server_state \<times> outcome" where
  "post_mcp st req =
     (let sessionId = mcp_session_id req in
      if truthy sessionId \<and> registered st sessionId \<noteq> Undefined then
        (case registered st sessionId of
           Transport transport \<Rightarrow> (st, Handled transport)
         | _ \<Rightarrow> (st, Threw TypeError))
      else if \<not> truthy sessionId \<and> init_body req then
        (let transport = length (heap st);
             st' = st\<lparr>heap := heap st @ [\<lparr>sessionId = None\<rparr>],
                      connected := connected st @ [transport]\<rparr>
         in (st', Handled transport))
      else (st, Responded 400 (Json bad_request)))"

text \<open>\<^verbatim>\<open>handleSessionRequest\<close>, the handler of GET and of DELETE.\<close>

definition handleSessionRequest :: "server_state \<Rightarrow> request \<Rightarrow> server_state \<times> outcome" where
  "handleSessionRequest st req =
     (let sessionId = mcp_session_id req in
      if \<not> truthy sessionId \<or> registered st sessionId = Undefined then
        (st, Responded 400 (Plain ''Invalid or missing session ID''))
      else
        (case registered st sessionId of
           Transport transport \<Rightarrow> (st, Handled transport)
         | _ \<Rightarrow> (st, Threw TypeError)))"

datatype http_method = GET | POST | DELETE

definition mcp_route :: "http_method \<Rightarrow> server_state \<Rightarrow> request \<Rightarrow> server_state \<times> outcome" where
  "mcp_route m st req = (case m of POST \<Rightarrow> post_mcp st req | _ \<Rightarrow> handleSessionRequest st req)"

subsection \<open>The callbacks given to a new transport\<close>



text \<open>
  \<^verbatim>\<open>transport.onclose = () => { if (transport.sessionId) delete transports[transport.sessionId] }\<close>
\<close>

definition onclose :: "transport_ref \<Rightarrow> server_state \<Rightarrow> server_state" where
  "onclose transport st =
     (if truthy (sessionId_of st transport)
      then (case sessionId_of st transport of
              Some s \<Rightarrow> st\<lparr>transports := delete_property (transports st) s\<rparr>
            | None \<Rightarrow> st)
      else st)"

subsection \<open>A POST request from arrival to response\<close>






section \<open>Shutdown\<close>

text \<open>
  The handlers of \<^verbatim>\<open>SIGINT\<close> and \<^verbatim>\<open>SIGTERM\<close> have the same body; what they do, in order.
  \<^verbatim>\<open>forEach\<close> runs over the array \<^verbatim>\<open>Object.values\<close> returned, so over the entries the registry
  had when the signal arrived.
\<close>

datatype signal = SIGINT | SIGTERM

datatype effect = ConsoleLog string | TransportClose transport_ref | ServerClose | ProcessExit int

definition on_signal :: "signal \<Rightarrow> server_state \<Rightarrow> effect list" where
  "on_signal sig st =
     (case sig of
        SIGINT \<Rightarrow> [ConsoleLog ''Shutting down server...'']
                   @ map TransportClose (Object_values (transports st))
                   @ [ServerClose, ProcessExit 0]
      | SIGTERM \<Rightarrow> [ConsoleLog ''Shutting down server...'']
                   @ map TransportClose (Object_values (transports st))
                   @ [ServerClose, ProcessExit 0])"

section \<open>Properties of the tool layer\<close>

subsection \<open>The token count\<close>

lemma tokens_fetch_call:
  "tokens (snd (fetch_call libId tok tp))
     = (case tok of None \<Rightarrow> DEFAULT_MINIMUM_TOKENS | Some t \<Rightarrow> t)"
  by (simp add: fetch_call_def Let_def split: prod.splits)

lemma transform_cases:
  "transform t = (if js_lt t (Finite 5000) then Finite 5000 else t)"
  by (simp add: transform_def DEFAULT_MINIMUM_TOKENS_def)

lemma js_le_transform: "t \<noteq> NaN \<Longrightarrow> js_le t (transform t)"
  by (cases t) (auto simp: transform_cases js_le_def)

lemma Number_10: "Number num ''10'' = Finite 10"
  by (simp add: Number_def is_digit_def digits_value_def)

lemma Number_9000: "Number num ''9000'' = Finite 9000"
  by (simp add: Number_def is_digit_def digits_value_def)

text \<open>
  When the arguments pass the schema, the handler calls \<^verbatim>\<open>fetchLibraryDocumentation\<close> on the
  arguments of \<open>fetch_call\<close> and answers from what the call returns.
\<close>

lemma get_library_docs_fetch:
  assumes "tokens_schema num v = Inr tok"
  shows "get_library_docs num fetchDocs libId tp v =
           docs_answer (fetchDocs (fst (fetch_call libId tok tp)) (snd (fetch_call libId tok tp)))"
  using assms by (simp add: get_library_docs_def Let_def split: prod.splits)

lemma get_library_docs_number:
  assumes "t \<noteq> NaN"
  shows "get_library_docs num fetchDocs libId tp (JNumber t)
           = docs_answer (fetchDocs (fst (fetch_call libId (Some (transform t)) tp))
                                    (snd (fetch_call libId (Some (transform t)) tp)))"
  using assms
  by (intro get_library_docs_fetch) (simp add: tokens_schema_def preprocess_def z_number_def)

lemma get_library_docs_NaN:
  "get_library_docs num fetchDocs libId tp (JNumber NaN) = InvalidArguments ZodError"
  by (simp add: get_library_docs_def tokens_schema_def preprocess_def z_number_def)

lemma get_library_docs_string:
  "get_library_docs num fetchDocs libId tp (JString s)
     = get_library_docs num fetchDocs libId tp (JNumber (Number num s))"
  by (simp add: get_library_docs_def tokens_schema_def preprocess_def)

lemma get_library_docs_omitted:
  "get_library_docs num fetchDocs libId tp JUndefined
     = docs_answer (fetchDocs (fst (fetch_call libId None tp)) (snd (fetch_call libId None tp)))"
  by (intro get_library_docs_fetch) (simp add: tokens_schema_def)

text \<open>
  The statements below say what the tool passes to the fetch in this form: there are
  arguments \<open>libraryId\<close> and \<open>opts\<close>, the same for every function put in the place of
  \<^verbatim>\<open>fetchLibraryDocumentation\<close>, such that the tool's answer is the answer made from the value
  of that function at \<open>libraryId\<close> and \<open>opts\<close>. A tool that does not call the fetch, or calls it
  on other arguments, does not satisfy this for every function.
\<close>

lemma forwards_clamped:
  assumes "t \<noteq> NaN"
  shows "\<exists>libraryId opts.
           tokens opts = (if js_lt t (Finite 5000) then Finite 5000 else t)
         \<and> js_le t (tokens opts)
         \<and> (\<forall>fetchDocs. get_library_docs num fetchDocs libId tp (JNumber t)
                          = docs_answer (fetchDocs libraryId opts))"
proof (intro exI conjI allI)
  show "tokens (snd (fetch_call libId (Some (transform t)) tp))
          = (if js_lt t (Finite 5000) then Finite 5000 else t)"
    by (simp add: tokens_fetch_call transform_cases)
  show "js_le t (tokens (snd (fetch_call libId (Some (transform t)) tp)))"
    using js_le_transform [OF assms] by (simp add: tokens_fetch_call)
  show "get_library_docs num fetchDocs libId tp (JNumber t)
          = docs_answer (fetchDocs (fst (fetch_call libId (Some (transform t)) tp))
                                   (snd (fetch_call libId (Some (transform t)) tp)))"
    for fetchDocs
    by (rule get_library_docs_number [OF assms])
qed

lemma forwards_default:
  "\<exists>libraryId opts.
      tokens opts = Finite 5000
    \<and> (\<forall>fetchDocs. get_library_docs num fetchDocs libId tp JUndefined
                     = docs_answer (fetchDocs libraryId opts))"
proof (intro exI conjI allI)
  show "tokens (snd (fetch_call libId None tp)) = Finite 5000"
    by (simp add: tokens_fetch_call DEFAULT_MINIMUM_TOKENS_def)
  show "get_library_docs num fetchDocs libId tp JUndefined
          = docs_answer (fetchDocs (fst (fetch_call libId None tp)) (snd (fetch_call libId None tp)))"
    for fetchDocs
    by (rule get_library_docs_omitted)
qed

text \<open>
  C4. For every call of \<^verbatim>\<open>get-library-docs\<close> with a numeric \<^verbatim>\<open>tokens\<close> argument \<open>t\<close> (any number
  but \<open>NaN\<close>, which JSON cannot carry and the schema refuses), the tool calls the documentation
  fetch with a token count that is 5000 when \<open>t < 5000\<close> and \<open>t\<close> otherwise, so never below
  \<open>t\<close>; with 10 the fetch is called with 5000 and with 9000 it is called with 9000.
\<close>

theorem get_library_docs_tokens_clamp:
  assumes "t \<noteq> NaN"
  shows "(\<exists>libraryId opts.
            tokens opts = (if js_lt t (Finite 5000) then Finite 5000 else t)
          \<and> js_le t (tokens opts)
          \<and> (\<forall>fetchDocs. get_library_docs num fetchDocs libId tp (JNumber t)
                           = docs_answer (fetchDocs libraryId opts)))
       \<and> (\<exists>libraryId opts.
            tokens opts = Finite 5000
          \<and> (\<forall>fetchDocs. get_library_docs num fetchDocs libId tp (JNumber (Finite 10))
                           = docs_answer (fetchDocs libraryId opts)))
       \<and> (\<exists>libraryId opts.
            tokens opts = Finite 9000
          \<and> (\<forall>fetchDocs. get_library_docs num fetchDocs libId tp (JNumber (Finite 9000))
                           = docs_answer (fetchDocs libraryId opts)))"
proof (intro conjI)
  show "\<exists>libraryId opts.
            tokens opts = (if js_lt t (Finite 5000) then Finite 5000 else t)
          \<and> js_le t (tokens opts)
          \<and> (\<forall>fetchDocs. get_library_docs num fetchDocs libId tp (JNumber t)
                           = docs_answer (fetchDocs libraryId opts))"
    by (rule forwards_clamped [OF assms])
  show "\<exists>libraryId opts.
            tokens opts = Finite 5000
          \<and> (\<forall>fetchDocs. get_library_docs num fetchDocs libId tp (JNumber (Finite 10))
                           = docs_answer (fetchDocs libraryId opts))"
    using forwards_clamped [of "Finite 10" num libId tp] by simp blast
  show "\<exists>libraryId opts.
            tokens opts = Finite 9000
          \<and> (\<forall>fetchDocs. get_library_docs num fetchDocs libId tp (JNumber (Finite 9000))
                           = docs_answer (fetchDocs libraryId opts))"
    using forwards_clamped [of "Finite 9000" num libId tp] by simp blast
qed

text \<open>
  The witness runs the tool on the token count 4999 with a fetch that reports whether it
  was called with 5000.
\<close>

theorem get_library_docs_tokens_clamp_witness:
  "Finite 4999 \<noteq> NaN
   \<and> get_library_docs (\<lambda>s. NaN)
        (\<lambda>libraryId opts. if tokens opts = Finite 5000 then Some ''tokens=5000'' else Some ''other'')
        ''vercel/nextjs'' None (JNumber (Finite 4999))
      = Result [Text ''tokens=5000'']"
proof -
  have h: "Finite 4999 \<noteq> NaN" by simp
  from get_library_docs_tokens_clamp [OF h, of "\<lambda>s. NaN" "''vercel/nextjs''" None]
  obtain libraryId opts
    where o: "tokens opts = (if js_lt (Finite 4999) (Finite 5000) then Finite 5000 else Finite 4999)"
    and f: "\<forall>fetchDocs. get_library_docs (\<lambda>s. NaN) fetchDocs ''vercel/nextjs'' None (JNumber (Finite 4999))
                           = docs_answer (fetchDocs libraryId opts)"
    by (elim conjE exE)
  from o have o': "tokens opts = Finite 5000" by simp
  from f have "get_library_docs (\<lambda>s. NaN)
        (\<lambda>libraryId opts. if tokens opts = Finite 5000 then Some ''tokens=5000'' else Some ''other'')
        ''vercel/nextjs'' None (JNumber (Finite 4999))
      = docs_answer ((\<lambda>libraryId opts. if tokens opts = Finite 5000 then Some ''tokens=5000''
                                        else Some ''other'') libraryId opts)"
    by (rule allE)
  with o' h show ?thesis by simp
qed

text \<open>
  C9. A \<^verbatim>\<open>tokens\<close> argument given as a string is converted with \<^verbatim>\<open>Number\<close> before the clamp: on
  the string \<open>s\<close> the tool does what it does on the number \<^verbatim>\<open>Number(s)\<close>, with every fetch; when
  that number is not \<open>NaN\<close> the tool calls the fetch with the clamped number (when it is \<open>NaN\<close>
  the schema refuses both). The string "10" makes the tool call the fetch with 5000 and
  "9000" with 9000, and with \<^verbatim>\<open>tokens\<close> omitted the fetch is called with the default 5000.
\<close>

theorem tokens_string_converted_before_clamp:
  "(\<forall>fetchDocs. get_library_docs num fetchDocs libId tp (JString s)
                  = get_library_docs num fetchDocs libId tp (JNumber (Number num s)))
   \<and> (Number num s \<noteq> NaN \<longrightarrow>
        (\<exists>libraryId opts.
            tokens opts = (if js_lt (Number num s) (Finite 5000) then Finite 5000 else Number num s)
          \<and> (\<forall>fetchDocs. get_library_docs num fetchDocs libId tp (JString s)
                           = docs_answer (fetchDocs libraryId opts))))
   \<and> (\<exists>libraryId opts.
         tokens opts = Finite 5000
       \<and> (\<forall>fetchDocs. get_library_docs num fetchDocs libId tp (JString ''10'')
                        = docs_answer (fetchDocs libraryId opts)))
   \<and> (\<exists>libraryId opts.
         tokens opts = Finite 9000
       \<and> (\<forall>fetchDocs. get_library_docs num fetchDocs libId tp (JString ''9000'')
                        = docs_answer (fetchDocs libraryId opts)))
   \<and> (\<exists>libraryId opts.
         tokens opts = Finite 5000
       \<and> (\<forall>fetchDocs. get_library_docs num fetchDocs libId tp JUndefined
                        = docs_answer (fetchDocs libraryId opts)))"
proof (intro conjI impI)
  show "\<forall>fetchDocs. get_library_docs num fetchDocs libId tp (JString s)
                  = get_library_docs num fetchDocs libId tp (JNumber (Number num s))"
    by (simp add: get_library_docs_string)
  show "\<exists>libraryId opts.
            tokens opts = (if js_lt (Number num s) (Finite 5000) then Finite 5000 else Number num s)
          \<and> (\<forall>fetchDocs. get_library_docs num fetchDocs libId tp (JString s)
                           = docs_answer (fetchDocs libraryId opts))"
    if "Number num s \<noteq> NaN"
    using forwards_clamped [OF that, of num libId tp]
    by (simp only: get_library_docs_string) blast
  show "\<exists>libraryId opts.
         tokens opts = Finite 5000
       \<and> (\<forall>fetchDocs. get_library_docs num fetchDocs libId tp (JString ''10'')
                        = docs_answer (fetchDocs libraryId opts))"
    using forwards_clamped [of "Finite 10" num libId tp]
    by (simp add: get_library_docs_string Number_10) blast
  show "\<exists>libraryId opts.
         tokens opts = Finite 9000
       \<and> (\<forall>fetchDocs. get_library_docs num fetchDocs libId tp (JString ''9000'')
                        = docs_answer (fetchDocs libraryId opts))"
    using forwards_clamped [of "Finite 9000" num libId tp]
    by (simp add: get_library_docs_string Number_9000) blast
  show "\<exists>libraryId opts.
         tokens opts = Finite 5000
       \<and> (\<forall>fetchDocs. get_library_docs num fetchDocs libId tp JUndefined
                        = docs_answer (fetchDocs libraryId opts))"
    by (rule forwards_default)
qed

text \<open>
  The witness runs the tool on the string "4999" with a fetch that reports whether it was
  called with 5000, and on the string "abc", which \<^verbatim>\<open>Number\<close> turns into \<open>NaN\<close>.
\<close>

theorem tokens_string_converted_before_clamp_witness:
  "Number (\<lambda>s. NaN) ''4999'' \<noteq> NaN
   \<and> get_library_docs (\<lambda>s. NaN)
        (\<lambda>libraryId opts. if tokens opts = Finite 5000 then Some ''tokens=5000'' else Some ''other'')
        ''vercel/nextjs'' None (JString ''4999'')
      = Result [Text ''tokens=5000'']
   \<and> get_library_docs (\<lambda>s. NaN)
        (\<lambda>libraryId opts. if tokens opts = Finite 5000 then Some ''tokens=5000'' else Some ''other'')
        ''vercel/nextjs'' None (JString ''abc'')
      = InvalidArguments ZodError"
proof -
  let ?spy = "\<lambda>(libraryId :: string option) opts.
                 if tokens opts = Finite 5000 then Some ''tokens=5000'' else Some ''other''"
  have n: "Number (\<lambda>s. NaN) ''4999'' = Finite 4999"
    by (simp add: Number_def is_digit_def digits_value_def)
  have m: "Number (\<lambda>s. NaN) ''abc'' = NaN"
    by (simp add: Number_def is_digit_def)
  have h: "Number (\<lambda>s. NaN) ''4999'' \<noteq> NaN" by (simp add: n)
  note inst = tokens_string_converted_before_clamp [of "\<lambda>s. NaN" "''vercel/nextjs''" None "''4999''"]
  from inst h obtain libraryId opts
    where o: "tokens opts = (if js_lt (Number (\<lambda>s. NaN) ''4999'') (Finite 5000) then Finite 5000
                             else Number (\<lambda>s. NaN) ''4999'')"
    and f: "\<forall>fetchDocs. get_library_docs (\<lambda>s. NaN) fetchDocs ''vercel/nextjs'' None (JString ''4999'')
                           = docs_answer (fetchDocs libraryId opts)"
    by (elim conjE exE impE) 
  from o have o': "tokens opts = Finite 5000" by (simp add: n)
  from f have "get_library_docs (\<lambda>s. NaN) ?spy ''vercel/nextjs'' None (JString ''4999'')
      = docs_answer (?spy libraryId opts)"
    by (rule allE)
  with o' have a: "get_library_docs (\<lambda>s. NaN) ?spy ''vercel/nextjs'' None (JString ''4999'')
      = Result [Text ''tokens=5000'']"
    by simp
  from tokens_string_converted_before_clamp [of "\<lambda>s. NaN" "''vercel/nextjs''" None "''abc''"]
  have "get_library_docs (\<lambda>s. NaN) ?spy ''vercel/nextjs'' None (JString ''abc'')
          = get_library_docs (\<lambda>s. NaN) ?spy ''vercel/nextjs'' None (JNumber (Number (\<lambda>s. NaN) ''abc''))"
    by (elim conjE) (erule allE)
  then have b: "get_library_docs (\<lambda>s. NaN) ?spy ''vercel/nextjs'' None (JString ''abc'')
          = InvalidArguments ZodError"
    by (simp only: m get_library_docs_NaN)
  from h a b show ?thesis by (intro conjI)
qed

subsection \<open>The folder selector\<close>

lemma split_at_none:
  "sep \<noteq> [] \<Longrightarrow> \<not> js_includes s sep \<Longrightarrow> split_at sep s = [s]"
  by (induction s) auto

lemma split_at_nonempty: "split_at sep s \<noteq> []"
  by (induction sep s rule: split_at.induct) (auto split: list.splits)

text \<open>
  An occurrence of the separator cannot start inside \<open>pre\<close> and run into the separator that
  follows \<open>pre\<close>, when the separator's first character occurs in it only once.
\<close>

lemma prefix_straddle:
  assumes pf: "prefix sep (pre @ sep @ rest)" and sep: "sep = q # qs" and q: "q \<notin> set qs"
  shows "pre = [] \<or> prefix sep pre"
proof (cases "length sep \<le> length pre")
  case True
  with pf show ?thesis
    by (metis prefix_length_prefix prefixI)
next
  case False
  show ?thesis
  proof (cases pre)
    case Nil
    then show ?thesis by simp
  next
    case (Cons p ps)
    from pf obtain zs where eq: "pre @ sep @ rest = sep @ zs"
      by (auto simp: prefix_def)
    from False have lt: "length pre < length sep" by simp
    have "(pre @ sep @ rest) ! length pre = q"
      by (simp add: nth_append sep)
    with eq have "(sep @ zs) ! length pre = q" by simp
    with lt have "sep ! length pre = q" by (simp add: nth_append)
    with Cons lt sep have "qs ! length ps = q" "length ps < length qs" by simp_all
    then have "q \<in> set qs" by (metis nth_mem)
    with q show ?thesis by simp
  qed
qed

lemma split_at_first:
  assumes sep: "sep = q # qs" and q: "q \<notin> set qs" and ni: "\<not> js_includes pre sep"
  shows "split_at sep (pre @ sep @ rest) = pre # split_at sep rest"
  using ni
proof (induction pre)
  case Nil
  have "prefix sep (sep @ rest)" by simp
  then show ?case using sep by (simp del: prefix_code)
next
  case (Cons p ps)
  then have np: "\<not> prefix sep (p # ps)" and ni': "\<not> js_includes ps sep"
    by simp_all
  have "\<not> prefix sep ((p # ps) @ sep @ rest)"
    using prefix_straddle [OF _ sep q, of "p # ps" rest] np by blast
  then have "split_at sep ((p # ps) @ sep @ rest)
      = (case split_at sep (ps @ sep @ rest) of [] \<Rightarrow> [[p]] | x # xs \<Rightarrow> (p # x) # xs)"
    by simp
  also have "\<dots> = (p # ps) # split_at sep rest"
    using Cons.IH [OF ni'] by simp
  finally show ?case .
qed

lemma js_includes_first:
  "sep \<noteq> [] \<Longrightarrow> js_includes s sep
     \<Longrightarrow> \<exists>pre rest. s = pre @ sep @ rest \<and> \<not> js_includes pre sep"
proof (induction s)
  case Nil
  then show ?case by simp
next
  case (Cons c cs)
  show ?case
  proof (cases "prefix sep (c # cs)")
    case True
    then obtain rest where "c # cs = [] @ sep @ rest" by (auto simp: prefix_def)
    moreover have "\<not> js_includes [] sep" using Cons.prems(1) by simp
    ultimately show ?thesis by blast
  next
    case False
    with Cons.prems have "js_includes cs sep" by simp
    with Cons obtain pre rest where pr: "cs = pre @ sep @ rest" "\<not> js_includes pre sep" by blast
    have "\<not> prefix sep (c # pre)"
      using False pr(1) by (metis Cons_eq_appendI prefix_prefix)
    with pr have "c # cs = (c # pre) @ sep @ rest" "\<not> js_includes (c # pre) sep" by simp_all
    then show ?thesis by blast
  qed
qed

lemma js_includes_self: "js_includes (sep @ rest) sep"
proof (cases "sep @ rest")
  case Nil
  then show ?thesis by simp
next
  case (Cons a list)
  have "prefix sep (sep @ rest)" by simp
  with Cons show ?thesis by (simp del: prefix_code)
qed

lemma js_includes_append: "js_includes (pre @ sep @ rest) sep"
  by (induction pre) (auto simp: js_includes_self simp del: append_assoc)

lemma fetch_call_folders:
  assumes "\<not> js_includes pre ''?folders=''"
  shows "fst (fetch_call (pre @ ''?folders='' @ rest) tok tp) = Some pre"
    and "folders (snd (fetch_call (pre @ ''?folders='' @ rest) tok tp))
           = Some (hd (split_at ''?folders='' rest))"
proof -
  have inc: "js_includes (pre @ ''?folders='' @ rest) ''?folders=''"
    by (rule js_includes_append)
  have sp: "split_at ''?folders='' (pre @ ''?folders='' @ rest)
              = pre # split_at ''?folders='' rest"
    by (rule split_at_first [where q = "CHR ''?''" and qs = "''folders=''"]) (use assms in simp_all)
  obtain x xs where xs: "split_at ''?folders='' rest = x # xs"
    using split_at_nonempty [of "''?folders=''" rest] by (cases "split_at ''?folders='' rest") auto
  show "fst (fetch_call (pre @ ''?folders='' @ rest) tok tp) = Some pre"
    unfolding fetch_call_def Let_def js_split_def using inc sp
    by (simp add: element_def split: prod.splits del: js_includes.simps split_at.simps append_assoc)
  show "folders (snd (fetch_call (pre @ ''?folders='' @ rest) tok tp))
           = Some (hd (split_at ''?folders='' rest))"
    unfolding fetch_call_def Let_def js_split_def using inc sp xs
    by (simp add: element_def split: prod.splits del: js_includes.simps split_at.simps append_assoc)
qed

text \<open>
  C5, as the code has it. For every call of \<^verbatim>\<open>get-library-docs\<close> whose library id contains
  \<^verbatim>\<open>?folders=\<close> (and whose arguments pass the schema), the tool calls the fetch with, as bare
  library id, the text before the first occurrence and, as folder selector in a separate
  parameter, the text after that occurrence up to the next occurrence of \<^verbatim>\<open>?folders=\<close>: all
  the text after it when there is no further occurrence. With the id
  \<^verbatim>\<open>vercel/nextjs?folders=app\<close> the fetch is called with the id \<^verbatim>\<open>vercel/nextjs\<close> and the
  selector \<^verbatim>\<open>app\<close>.
\<close>

theorem folders_selector_split:
  assumes "js_includes libId ''?folders=''" and "tokens_schema num v = Inr tok"
  shows "(\<exists>pre rest selector opts.
            libId = pre @ ''?folders='' @ rest \<and> \<not> js_includes pre ''?folders=''
          \<and> (\<not> js_includes rest ''?folders='' \<longrightarrow> selector = rest)
          \<and> (\<forall>mid rest'. rest = mid @ ''?folders='' @ rest' \<and> \<not> js_includes mid ''?folders=''
                \<longrightarrow> selector = mid)
          \<and> folders opts = Some selector
          \<and> (\<forall>fetchDocs. get_library_docs num fetchDocs libId tp v
                           = docs_answer (fetchDocs (Some pre) opts)))
       \<and> (\<exists>opts. folders opts = Some ''app''
          \<and> (\<forall>fetchDocs. get_library_docs num fetchDocs ''vercel/nextjs?folders=app'' tp v
                           = docs_answer (fetchDocs (Some ''vercel/nextjs'') opts)))"
proof (rule conjI)
  from js_includes_first [OF _ assms(1)] obtain pre rest
    where dec: "libId = pre @ ''?folders='' @ rest" and first: "\<not> js_includes pre ''?folders=''"
    by auto
  define selector where "selector = hd (split_at ''?folders='' rest)"
  define opts where "opts = snd (fetch_call libId tok tp)"
  have l: "fst (fetch_call libId tok tp) = Some pre"
    unfolding dec by (rule fetch_call_folders(1) [OF first])
  have f: "folders opts = Some selector"
    unfolding opts_def selector_def dec by (rule fetch_call_folders(2) [OF first])
  have one: "\<not> js_includes rest ''?folders='' \<longrightarrow> selector = rest"
    by (simp add: selector_def split_at_none)
  have more: "\<forall>mid rest'. rest = mid @ ''?folders='' @ rest' \<and> \<not> js_includes mid ''?folders=''
      \<longrightarrow> selector = mid"
  proof (intro allI impI)
    fix mid rest'
    assume a: "rest = mid @ ''?folders='' @ rest' \<and> \<not> js_includes mid ''?folders=''"
    have "split_at ''?folders='' (mid @ ''?folders='' @ rest') = mid # split_at ''?folders='' rest'"
      by (rule split_at_first [where q = "CHR ''?''" and qs = "''folders=''"]) (use a in simp_all)
    with a show "selector = mid" by (simp add: selector_def)
  qed
  have call: "\<forall>fetchDocs. get_library_docs num fetchDocs libId tp v
                           = docs_answer (fetchDocs (Some pre) opts)"
    using get_library_docs_fetch [OF assms(2), of _ libId tp] by (simp add: l opts_def)
  show "\<exists>pre rest selector opts.
            libId = pre @ ''?folders='' @ rest \<and> \<not> js_includes pre ''?folders=''
          \<and> (\<not> js_includes rest ''?folders='' \<longrightarrow> selector = rest)
          \<and> (\<forall>mid rest'. rest = mid @ ''?folders='' @ rest' \<and> \<not> js_includes mid ''?folders=''
                \<longrightarrow> selector = mid)
          \<and> folders opts = Some selector
          \<and> (\<forall>fetchDocs. get_library_docs num fetchDocs libId tp v
                           = docs_answer (fetchDocs (Some pre) opts))"
    using dec first one more f call by blast
next
  have l: "fst (fetch_call ''vercel/nextjs?folders=app'' tok tp) = Some ''vercel/nextjs''"
    and f: "folders (snd (fetch_call ''vercel/nextjs?folders=app'' tok tp)) = Some ''app''"
    using fetch_call_folders [of "''vercel/nextjs''" "''app''" tok tp] by simp_all
  have "\<forall>fetchDocs. get_library_docs num fetchDocs ''vercel/nextjs?folders=app'' tp v
          = docs_answer (fetchDocs (Some ''vercel/nextjs'')
                                   (snd (fetch_call ''vercel/nextjs?folders=app'' tok tp)))"
    using get_library_docs_fetch [OF assms(2), of _ "''vercel/nextjs?folders=app''" tp]
    by (simp only: l) simp
  with f show "\<exists>opts. folders opts = Some ''app''
          \<and> (\<forall>fetchDocs. get_library_docs num fetchDocs ''vercel/nextjs?folders=app'' tp v
                           = docs_answer (fetchDocs (Some ''vercel/nextjs'') opts))"
    by (intro exI conjI)
qed

text \<open>
  The witness runs the tool with a fetch that answers with the library id and the folder
  selector it was called with.
\<close>

theorem folders_selector_split_witness:
  "js_includes ''vercel/nextjs?folders=app'' ''?folders=''
   \<and> tokens_schema (\<lambda>s. NaN) JUndefined = Inr None
   \<and> get_library_docs (\<lambda>s. NaN)
        (\<lambda>libraryId opts. case (libraryId, folders opts) of
                             (Some l, Some f) \<Rightarrow> Some (''id='' @ l @ '' folders='' @ f)
                           | _ \<Rightarrow> None)
        ''vercel/nextjs?folders=app'' None JUndefined
      = Result [Text ''id=vercel/nextjs folders=app'']"
proof -
  let ?spy = "\<lambda>(libraryId :: string option) opts. case (libraryId, folders opts) of
                             (Some l, Some f) \<Rightarrow> Some (''id='' @ l @ '' folders='' @ f)
                           | _ \<Rightarrow> None"
  have h1: "js_includes ''vercel/nextjs?folders=app'' ''?folders=''" by simp
  have h2: "tokens_schema (\<lambda>s. NaN) JUndefined = Inr None" by (simp add: tokens_schema_def)
  from folders_selector_split [OF h1 h2, of None]
  obtain opts where f: "folders opts = Some ''app''"
    and c: "\<forall>fetchDocs. get_library_docs (\<lambda>s. NaN) fetchDocs ''vercel/nextjs?folders=app'' None JUndefined
                           = docs_answer (fetchDocs (Some ''vercel/nextjs'') opts)"
    by (elim conjE exE)
  from c have "get_library_docs (\<lambda>s. NaN) ?spy ''vercel/nextjs?folders=app'' None JUndefined
                 = docs_answer (?spy (Some ''vercel/nextjs'') opts)"
    by (rule allE)
  with f have "get_library_docs (\<lambda>s. NaN) ?spy ''vercel/nextjs?folders=app'' None JUndefined
                 = Result [Text ''id=vercel/nextjs folders=app'']"
    by simp
  with h1 h2 show ?thesis by (intro conjI)
qed

text \<open>
  C5 as stated fails on an id with two occurrences: the text after the first \<^verbatim>\<open>?folders=\<close> is
  \<^verbatim>\<open>app?folders=docs\<close>, and the tool calls the fetch with the selector \<^verbatim>\<open>app\<close>. The fetch used
  here answers with the library id and the folder selector it was called with.
\<close>

theorem folders_text_after_counterexample:
  "js_includes ''vercel/nextjs?folders=app?folders=docs'' ''?folders=''
   \<and> ''vercel/nextjs?folders=app?folders=docs'' = ''vercel/nextjs'' @ ''?folders='' @ ''app?folders=docs''
   \<and> get_library_docs (\<lambda>s. NaN)
        (\<lambda>libraryId opts. case (libraryId, folders opts) of
                             (Some l, Some f) \<Rightarrow> Some (''id='' @ l @ '' folders='' @ f)
                           | _ \<Rightarrow> None)
        ''vercel/nextjs?folders=app?folders=docs'' None JUndefined
      = Result [Text ''id=vercel/nextjs folders=app'']
   \<and> get_library_docs (\<lambda>s. NaN)
        (\<lambda>libraryId opts. case (libraryId, folders opts) of
                             (Some l, Some f) \<Rightarrow> Some (''id='' @ l @ '' folders='' @ f)
                           | _ \<Rightarrow> None)
        ''vercel/nextjs?folders=app?folders=docs'' None JUndefined
      \<noteq> Result [Text ''id=vercel/nextjs folders=app?folders=docs'']"
proof -
  let ?spy = "\<lambda>(libraryId :: string option) opts. case (libraryId, folders opts) of
                             (Some l, Some f) \<Rightarrow> Some (''id='' @ l @ '' folders='' @ f)
                           | _ \<Rightarrow> None"
  have l: "fst (fetch_call ''vercel/nextjs?folders=app?folders=docs'' None None) = Some ''vercel/nextjs''"
    and f: "folders (snd (fetch_call ''vercel/nextjs?folders=app?folders=docs'' None None)) = Some ''app''"
    using fetch_call_folders [of "''vercel/nextjs''" "''app?folders=docs''" None None] by simp_all
  have "get_library_docs (\<lambda>s. NaN) ?spy ''vercel/nextjs?folders=app?folders=docs'' None JUndefined
          = docs_answer (?spy (fst (fetch_call ''vercel/nextjs?folders=app?folders=docs'' None None))
                              (snd (fetch_call ''vercel/nextjs?folders=app?folders=docs'' None None)))"
    by (rule get_library_docs_omitted)
  then have r: "get_library_docs (\<lambda>s. NaN) ?spy ''vercel/nextjs?folders=app?folders=docs'' None JUndefined
          = Result [Text ''id=vercel/nextjs folders=app'']"
    by (simp only: l f) simp
  have i: "js_includes ''vercel/nextjs?folders=app?folders=docs'' ''?folders=''" by simp
  have e: "''vercel/nextjs?folders=app?folders=docs''
             = ''vercel/nextjs'' @ ''?folders='' @ ''app?folders=docs''" by simp
  have n: "get_library_docs (\<lambda>s. NaN) ?spy ''vercel/nextjs?folders=app?folders=docs'' None JUndefined
      \<noteq> Result [Text ''id=vercel/nextjs folders=app?folders=docs'']"
    by (simp only: r) simp
  from i e r n show ?thesis by (intro conjI)
qed

subsection \<open>Upstream failures\<close>

text \<open>
  C6. When the upstream call yields no data, the tool returns a content payload with an
  explanatory text: a missing response or a response without \<^verbatim>\<open>results\<close> gives the text
  "Failed to retrieve library documentation data from Context7", an empty result list gives
  exactly "No documentation libraries available", and a documentation fetch that yields
  \<^verbatim>\<open>null\<close> or the empty string gives the (non-empty) not-found text.
\<close>

theorem tool_failures_become_content:
  "(searchLibraries libraryName = None
      \<or> (\<exists>r. searchLibraries libraryName = Some r \<and> results r = None)
     \<longrightarrow> resolve_library_id searchLibraries formatSearchResults libraryName
           = Result [Text ''Failed to retrieve library documentation data from Context7''])
   \<and> ((\<exists>r. searchLibraries libraryName = Some r \<and> results r = Some [])
     \<longrightarrow> resolve_library_id searchLibraries formatSearchResults libraryName
           = Result [Text ''No documentation libraries available''])
   \<and> (tokens_schema rest v = Inr tok
       \<and> (fetchDocs (fst (fetch_call libId tok tp)) (snd (fetch_call libId tok tp)) = None
          \<or> fetchDocs (fst (fetch_call libId tok tp)) (snd (fetch_call libId tok tp)) = Some [])
     \<longrightarrow> get_library_docs rest fetchDocs libId tp v = Result [Text not_found_text])
   \<and> not_found_text \<noteq> []"
proof (intro conjI impI)
  assume "searchLibraries libraryName = None
      \<or> (\<exists>r. searchLibraries libraryName = Some r \<and> results r = None)"
  then show "resolve_library_id searchLibraries formatSearchResults libraryName
           = Result [Text ''Failed to retrieve library documentation data from Context7'']"
    by (auto simp: resolve_library_id_def)
next
  assume "\<exists>r. searchLibraries libraryName = Some r \<and> results r = Some []"
  then show "resolve_library_id searchLibraries formatSearchResults libraryName
           = Result [Text ''No documentation libraries available'']"
    by (auto simp: resolve_library_id_def)
next
  assume a: "tokens_schema rest v = Inr tok
       \<and> (fetchDocs (fst (fetch_call libId tok tp)) (snd (fetch_call libId tok tp)) = None
          \<or> fetchDocs (fst (fetch_call libId tok tp)) (snd (fetch_call libId tok tp)) = Some [])"
  then show "get_library_docs rest fetchDocs libId tp v = Result [Text not_found_text]"
    by (auto simp: get_library_docs_def Let_def split: prod.splits)
next
  show "not_found_text \<noteq> []" by (simp add: not_found_text_def)
qed

theorem tool_failures_become_content_witness:
  "resolve_library_id (\<lambda>name. Some \<lparr>results = Some ([] :: nat list)\<rparr>) (\<lambda>r. ''unused'') ''react''
       = Result [Text ''No documentation libraries available'']
   \<and> resolve_library_id (\<lambda>name. (None :: nat search_response option)) (\<lambda>r. ''unused'') ''react''
       = Result [Text ''Failed to retrieve library documentation data from Context7'']
   \<and> get_library_docs (\<lambda>s. NaN) (\<lambda>libraryId opts. None) ''vercel/nextjs'' None JUndefined
       = Result [Text not_found_text]"
  using tool_failures_become_content
          [of "\<lambda>name. Some \<lparr>results = Some ([] :: nat list)\<rparr>" "''react''" "\<lambda>r. ''unused''"
              "\<lambda>s. NaN" JUndefined None "\<lambda>libraryId opts. None" "''vercel/nextjs''" None]
        tool_failures_become_content
          [of "\<lambda>name. (None :: nat search_response option)" "''react''" "\<lambda>r. ''unused''"
              "\<lambda>s. NaN" JUndefined None "\<lambda>libraryId opts. None" "''vercel/nextjs''" None]
  by (simp add: tokens_schema_def)

section \<open>Properties of the session layer\<close>

lemma get_property_unknown:
  "s \<notin> fst ` set r \<Longrightarrow> s \<notin> set Object_prototype_keys \<Longrightarrow> get_property r s = Undefined"
  by (simp add: get_property_def map_of_eq_None_iff [THEN iffD2])

lemma get_property_own:
  "map_of r s = Some t \<Longrightarrow> get_property r s = Transport t"
  by (simp add: get_property_def)

lemma delete_property_filter:
  "delete_property r s = filter (\<lambda>(key, v). key \<noteq> s) r"
  unfolding delete_property_def by (induction r) auto

subsection \<open>GET and DELETE\<close>

text \<open>
  Without a header, with an empty one, or with one that names neither an entry of the
  registry nor a member of \<^verbatim>\<open>Object.prototype\<close>, GET and DELETE are answered with status 400
  and the plain text; no transport is called and the state is unchanged.
\<close>

lemma handleSessionRequest_rejects:
  assumes "header = None \<or> header = Some [] \<or>
     (\<exists>s. header = Some s \<and> s \<notin> fst ` set (transports st) \<and> s \<notin> set Object_prototype_keys)"
  shows "handleSessionRequest st \<lparr>mcp_session_id = header, init_body = b\<rparr>
           = (st, Responded 400 (Plain ''Invalid or missing session ID''))"
  using assms
  by (auto simp: handleSessionRequest_def truthy_def registered_def get_property_unknown)

text \<open>
  C7 at the header value \<^verbatim>\<open>constructor\<close>, which no session was registered under: the guard
  \<^verbatim>\<open>!transports[sessionId]\<close> finds the inherited \<^verbatim>\<open>Object.prototype.constructor\<close>, so the request
  is not answered with status 400; the handler goes on and throws.
\<close>

theorem get_delete_inherited_name_not_rejected:
  "''constructor'' \<notin> fst ` set (transports initial_state)
   \<and> mcp_route GET initial_state \<lparr>mcp_session_id = Some ''constructor'', init_body = False\<rparr>
       = (initial_state, Threw TypeError)
   \<and> mcp_route DELETE initial_state \<lparr>mcp_session_id = Some ''constructor'', init_body = False\<rparr>
       = (initial_state, Threw TypeError)
   \<and> mcp_route GET initial_state \<lparr>mcp_session_id = Some ''constructor'', init_body = False\<rparr>
       \<noteq> (initial_state, Responded 400 (Plain ''Invalid or missing session ID''))"
  by (simp add: mcp_route_def handleSessionRequest_def truthy_def registered_def get_property_def
      initial_state_def Object_prototype_keys_def)

subsection \<open>Closing a transport\<close>

text \<open>
  C10. The \<^verbatim>\<open>onclose\<close> callback of a transport changes at most the registry entry of that
  transport's own session id: with no session id assigned it leaves the state unchanged;
  with the session id \<open>s\<close> it removes exactly the entries whose key is \<open>s\<close>, so every other
  key keeps its transport, and the transports themselves are untouched; when \<open>s\<close> is not a
  key of the registry nothing changes.
\<close>

theorem onclose_touches_own_entry_only:
  "(sessionId_of st t = None \<longrightarrow> onclose t st = st)
   \<and> (sessionId_of st t = Some s \<and> s \<noteq> []
        \<longrightarrow> transports (onclose t st) = filter (\<lambda>(key, v). key \<noteq> s) (transports st)
          \<and> map_of (transports (onclose t st)) s = None
          \<and> (\<forall>key. key \<noteq> s \<longrightarrow> map_of (transports (onclose t st)) key = map_of (transports st) key)
          \<and> heap (onclose t st) = heap st \<and> connected (onclose t st) = connected st)
   \<and> (sessionId_of st t = Some s \<and> s \<notin> fst ` set (transports st) \<longrightarrow> onclose t st = st)"
proof (intro conjI impI)
  assume "sessionId_of st t = None"
  then show "onclose t st = st" by (simp add: onclose_def truthy_def)
next
  assume a: "sessionId_of st t = Some s \<and> s \<noteq> []"
  then have eq: "onclose t st = st\<lparr>transports := delete_property (transports st) s\<rparr>"
    by (simp add: onclose_def truthy_def)
  show "transports (onclose t st) = filter (\<lambda>(key, v). key \<noteq> s) (transports st)"
    by (simp add: eq delete_property_filter)
  show "map_of (transports (onclose t st)) s = None"
    by (simp add: eq delete_property_def AList.delete_conv')
  show "\<forall>key. key \<noteq> s \<longrightarrow> map_of (transports (onclose t st)) key = map_of (transports st) key"
    by (simp add: eq delete_property_def)
  show "heap (onclose t st) = heap st" by (simp add: eq)
  show "connected (onclose t st) = connected st" by (simp add: eq)
next
  assume "sessionId_of st t = Some s \<and> s \<notin> fst ` set (transports st)"
  then show "onclose t st = st"
    by (simp add: onclose_def truthy_def delete_property_def)
qed

theorem onclose_touches_own_entry_only_witness:
  "sessionId_of \<lparr>transports = [(''s1'', 0), (''s2'', 1)],
                 heap = [\<lparr>sessionId = Some ''s1''\<rparr>, \<lparr>sessionId = Some ''s2''\<rparr>, \<lparr>sessionId = None\<rparr>],
                 connected = [0, 1, 2]\<rparr> 0 = Some ''s1''
   \<and> transports (onclose 0 \<lparr>transports = [(''s1'', 0), (''s2'', 1)],
                 heap = [\<lparr>sessionId = Some ''s1''\<rparr>, \<lparr>sessionId = Some ''s2''\<rparr>, \<lparr>sessionId = None\<rparr>],
                 connected = [0, 1, 2]\<rparr>) = [(''s2'', 1)]
   \<and> onclose 2 \<lparr>transports = [(''s1'', 0), (''s2'', 1)],
                 heap = [\<lparr>sessionId = Some ''s1''\<rparr>, \<lparr>sessionId = Some ''s2''\<rparr>, \<lparr>sessionId = None\<rparr>],
                 connected = [0, 1, 2]\<rparr>
       = \<lparr>transports = [(''s1'', 0), (''s2'', 1)],
                 heap = [\<lparr>sessionId = Some ''s1''\<rparr>, \<lparr>sessionId = Some ''s2''\<rparr>, \<lparr>sessionId = None\<rparr>],
                 connected = [0, 1, 2]\<rparr>"
  using onclose_touches_own_entry_only
          [of "\<lparr>transports = [(''s1'', 0), (''s2'', 1)],
                 heap = [\<lparr>sessionId = Some ''s1''\<rparr>, \<lparr>sessionId = Some ''s2''\<rparr>, \<lparr>sessionId = None\<rparr>],
                 connected = [0, 1, 2]\<rparr>" 0 "''s1''"]
        onclose_touches_own_entry_only
          [of "\<lparr>transports = [(''s1'', 0), (''s2'', 1)],
                 heap = [\<lparr>sessionId = Some ''s1''\<rparr>, \<lparr>sessionId = Some ''s2''\<rparr>, \<lparr>sessionId = None\<rparr>],
                 connected = [0, 1, 2]\<rparr>" 2 "''s1''"]
  by (simp add: sessionId_of_def)

subsection \<open>Shutdown\<close>

lemma mset_Object_values: "mset (Object_values r) = mset (map snd r)"
proof -
  have "mset (filter (\<lambda>(key, t). is_array_index key) r)
          + mset (filter (\<lambda>(key, t). \<not> is_array_index key) r) = mset r"
    by (induction r) auto
  then show ?thesis
    unfolding Object_values_def
    by (metis mset_append mset_map mset_sort)
qed

text \<open>
  C8. On \<^verbatim>\<open>SIGINT\<close> and on \<^verbatim>\<open>SIGTERM\<close> alike, \<^verbatim>\<open>close()\<close> is called once for every entry of
  the registry, on the transport of that entry, then the server is closed, and the last
  thing the handler does is to exit the process with code 0.
\<close>

theorem signal_closes_every_transport_then_exits:
  "(\<exists>closes. on_signal sig st
        = [ConsoleLog ''Shutting down server...''] @ map TransportClose closes
          @ [ServerClose, ProcessExit 0]
      \<and> mset closes = mset (map snd (transports st)))
   \<and> (map_of (transports st) key = Some t \<longrightarrow> TransportClose t \<in> set (on_signal sig st))
   \<and> last (on_signal sig st) = ProcessExit 0
   \<and> on_signal SIGINT st = on_signal SIGTERM st"
proof (intro conjI impI)
  have "on_signal sig st
        = [ConsoleLog ''Shutting down server...'']
          @ map TransportClose (Object_values (transports st)) @ [ServerClose, ProcessExit 0]"
    by (cases sig) (simp_all add: on_signal_def)
  then show "\<exists>closes. on_signal sig st
        = [ConsoleLog ''Shutting down server...''] @ map TransportClose closes
          @ [ServerClose, ProcessExit 0]
      \<and> mset closes = mset (map snd (transports st))"
    using mset_Object_values by blast
next
  assume "map_of (transports st) key = Some t"
  then have "t \<in> set (map snd (transports st))"
    by (metis map_of_SomeD set_zip_rightD zip_map_fst_snd)
  then have "t \<in> set (Object_values (transports st))"
    by (metis mset_Object_values set_mset_mset)
  then show "TransportClose t \<in> set (on_signal sig st)"
    by (cases sig) (simp_all add: on_signal_def)
next
  show "last (on_signal sig st) = ProcessExit 0"
    by (cases sig) (simp_all add: on_signal_def)
next
  show "on_signal SIGINT st = on_signal SIGTERM st"
    by (simp add: on_signal_def)
qed

lemma not_array_index_s: "\<not> is_array_index ''s1''" "\<not> is_array_index ''s2''"
  by (simp_all add: is_array_index_def is_digit_def)

theorem signal_closes_every_transport_then_exits_witness:
  "map_of (transports \<lparr>transports = [(''s1'', 0), (''s2'', 1)],
                 heap = [\<lparr>sessionId = Some ''s1''\<rparr>, \<lparr>sessionId = Some ''s2''\<rparr>],
                 connected = [0, 1]\<rparr>) ''s2'' = Some 1
   \<and> TransportClose 1 \<in> set (on_signal SIGTERM \<lparr>transports = [(''s1'', 0), (''s2'', 1)],
                 heap = [\<lparr>sessionId = Some ''s1''\<rparr>, \<lparr>sessionId = Some ''s2''\<rparr>],
                 connected = [0, 1]\<rparr>)
   \<and> on_signal SIGTERM \<lparr>transports = [(''s1'', 0), (''s2'', 1)],
                 heap = [\<lparr>sessionId = Some ''s1''\<rparr>, \<lparr>sessionId = Some ''s2''\<rparr>],
                 connected = [0, 1]\<rparr>
       = [ConsoleLog ''Shutting down server...'', TransportClose 0, TransportClose 1,
          ServerClose, ProcessExit 0]"
  using signal_closes_every_transport_then_exits
          [of SIGTERM "\<lparr>transports = [(''s1'', 0), (''s2'', 1)],
                 heap = [\<lparr>sessionId = Some ''s1''\<rparr>, \<lparr>sessionId = Some ''s2''\<rparr>],
                 connected = [0, 1]\<rparr>" "''s2''" 1]
  by (simp add: on_signal_def Object_values_def not_array_index_s)


subsection \<open>POST with a session header\<close>

lemma post_mcp_transports: "transports (fst (post_mcp st req)) = transports st"
  by (simp add: post_mcp_def Let_def split: property.splits)


lemma post_initialize:
  "post_mcp st \<lparr>mcp_session_id = None, init_body = True\<rparr>
     = (st\<lparr>heap := heap st @ [\<lparr>sessionId = None\<rparr>], connected := connected st @ [length (heap st)]\<rparr>,
        Handled (length (heap st)))"
  by (simp add: post_mcp_def truthy_def registered_def Let_def)

text \<open>
  A header that names a member of \<^verbatim>\<open>Object.prototype\<close> and no entry of the registry is
  neither reused nor rejected by the POST handler: the handler throws.
\<close>

lemma post_inherited_name_throws:
  "post_mcp initial_state \<lparr>mcp_session_id = Some ''constructor'', init_body = b\<rparr>
     = (initial_state, Threw TypeError)"
  by (simp add: post_mcp_def truthy_def registered_def get_property_def
      initial_state_def Object_prototype_keys_def)

text \<open>
  C1, as the code has it. For every POST whose \<^verbatim>\<open>mcp-session-id\<close> header is not empty and
  names neither an entry of the registry nor a member of \<^verbatim>\<open>Object.prototype\<close>, whatever the
  body, the response has status 400 and the JSON-RPC error envelope with code -32000, the
  message "Bad Request: No valid session ID provided or not an initialization request." and
  id null, and the state of the server, the registry with it, is unchanged.
\<close>

theorem post_unknown_session_rejected:
  assumes "sid \<noteq> []" and "sid \<notin> fst ` set (transports st)"
    and "sid \<notin> set Object_prototype_keys"
  shows "post_mcp st \<lparr>mcp_session_id = Some sid, init_body = b\<rparr>
           = (st, Responded 400 (Json
                \<lparr>jsonrpc = ''2.0'',
                 error = \<lparr>code = - 32000,
                          message = ''Bad Request: No valid session ID provided or not an initialization request.''\<rparr>,
                 id_field = Null\<rparr>))"
  using assms
  by (simp add: post_mcp_def truthy_def registered_def get_property_unknown bad_request_def)

theorem post_unknown_session_rejected_witness:
  "''stale'' \<noteq> [] \<and> ''stale'' \<notin> fst ` set (transports initial_state)
   \<and> ''stale'' \<notin> set Object_prototype_keys
   \<and> post_mcp initial_state \<lparr>mcp_session_id = Some ''stale'', init_body = True\<rparr>
       = (initial_state, Responded 400 (Json
                \<lparr>jsonrpc = ''2.0'',
                 error = \<lparr>code = - 32000,
                          message = ''Bad Request: No valid session ID provided or not an initialization request.''\<rparr>,
                 id_field = Null\<rparr>))"
proof -
  have h: "''stale'' \<noteq> []" "''stale'' \<notin> fst ` set (transports initial_state)"
    "''stale'' \<notin> set Object_prototype_keys"
    by (simp_all add: initial_state_def Object_prototype_keys_def)
  from post_unknown_session_rejected [OF h, of True] h show ?thesis by blast
qed

text \<open>
  C1 as stated fails on the message: for a header that is not a key of the registry the
  envelope does not carry the message "session not found".
\<close>

theorem post_unknown_session_message_counterexample:
  "''stale'' \<notin> fst ` set (transports initial_state)
   \<and> snd (post_mcp initial_state \<lparr>mcp_session_id = Some ''stale'', init_body = False\<rparr>)
       \<noteq> Responded 400 (Json
            \<lparr>jsonrpc = ''2.0'', error = \<lparr>code = - 32000, message = ''session not found''\<rparr>,
             id_field = Null\<rparr>)"
  by (simp add: post_mcp_def truthy_def registered_def get_property_def bad_request_def
      initial_state_def Object_prototype_keys_def)

text \<open>
  C3, as the code has it. For every POST with a non-empty \<^verbatim>\<open>mcp-session-id\<close> header, whatever
  the body, no transport is constructed and the state of the server is unchanged; and when
  the header names an entry of the registry or is no member of \<^verbatim>\<open>Object.prototype\<close>, the
  request is either handed to the transport registered under that id or rejected with the
  error envelope.
\<close>

theorem post_with_session_header_never_creates:
  assumes "sid \<noteq> []"
  shows "fst (post_mcp st \<lparr>mcp_session_id = Some sid, init_body = b\<rparr>) = st
     \<and> (sid \<in> fst ` set (transports st) \<or> sid \<notin> set Object_prototype_keys \<longrightarrow>
          (\<exists>t. map_of (transports st) sid = Some t
             \<and> snd (post_mcp st \<lparr>mcp_session_id = Some sid, init_body = b\<rparr>) = Handled t)
          \<or> (sid \<notin> fst ` set (transports st)
             \<and> snd (post_mcp st \<lparr>mcp_session_id = Some sid, init_body = b\<rparr>)
                 = Responded 400 (Json bad_request)))"
proof (cases "map_of (transports st) sid")
  case None
  then have nk: "sid \<notin> fst ` set (transports st)" by (simp add: map_of_eq_None_iff)
  show ?thesis
  proof (cases "sid \<in> set Object_prototype_keys")
    case True
    with None nk assms show ?thesis
      by (simp add: post_mcp_def truthy_def registered_def get_property_def)
  next
    case False
    with nk assms show ?thesis
      by (simp add: post_mcp_def truthy_def registered_def get_property_unknown)
  qed
next
  case (Some t)
  with assms show ?thesis
    by (simp add: post_mcp_def truthy_def registered_def get_property_own)
qed

theorem post_with_session_header_never_creates_witness:
  "''s1'' \<noteq> []
   \<and> post_mcp \<lparr>transports = [(''s1'', 0)], heap = [\<lparr>sessionId = Some ''s1''\<rparr>], connected = [0]\<rparr>
        \<lparr>mcp_session_id = Some ''s1'', init_body = True\<rparr>
       = (\<lparr>transports = [(''s1'', 0)], heap = [\<lparr>sessionId = Some ''s1''\<rparr>], connected = [0]\<rparr>,
          Handled 0)
   \<and> post_mcp \<lparr>transports = [(''s1'', 0)], heap = [\<lparr>sessionId = Some ''s1''\<rparr>], connected = [0]\<rparr>
        \<lparr>mcp_session_id = Some ''s2'', init_body = True\<rparr>
       = (\<lparr>transports = [(''s1'', 0)], heap = [\<lparr>sessionId = Some ''s1''\<rparr>], connected = [0]\<rparr>,
          Responded 400 (Json bad_request))"
proof -
  let ?st = "\<lparr>transports = [(''s1'', 0)], heap = [\<lparr>sessionId = Some ''s1''\<rparr>], connected = [0]\<rparr>"
  have keys: "''s1'' \<in> fst ` set (transports ?st)" "''s2'' \<notin> fst ` set (transports ?st)"
    "''s2'' \<notin> set Object_prototype_keys" "map_of (transports ?st) ''s1'' = Some 0"
    by (simp_all add: Object_prototype_keys_def)
  have a: "post_mcp ?st \<lparr>mcp_session_id = Some ''s1'', init_body = True\<rparr> = (?st, Handled 0)"
    using post_with_session_header_never_creates [of "''s1''" ?st True] keys
    by (auto simp: prod_eq_iff)
  have b: "post_mcp ?st \<lparr>mcp_session_id = Some ''s2'', init_body = True\<rparr>
             = (?st, Responded 400 (Json bad_request))"
    using post_with_session_header_never_creates [of "''s2''" ?st True] keys
    by (auto simp: prod_eq_iff)
  from a b show ?thesis by simp
qed

text \<open>
  C3 as stated fails on a header with the empty value: the request carries the header, its
  body is an initialize request, and the handler constructs a transport.
\<close>

theorem post_empty_header_creates_counterexample:
  "mcp_session_id \<lparr>mcp_session_id = Some [], init_body = True\<rparr> \<noteq> None
   \<and> post_mcp initial_state \<lparr>mcp_session_id = Some [], init_body = True\<rparr>
       = (\<lparr>transports = [], heap = [\<lparr>sessionId = None\<rparr>], connected = [0]\<rparr>, Handled 0)
   \<and> heap (fst (post_mcp initial_state \<lparr>mcp_session_id = Some [], init_body = True\<rparr>))
       \<noteq> heap initial_state"
  by (simp add: post_mcp_def truthy_def registered_def initial_state_def Let_def)


subsection \<open>The handshake\<close>

















end
